theory Spec2Isabelle
  imports Main "HOL-Library.Word" "HOL-Library.Signed_Division"
begin

section \<open>JavaScript values used by the web client\<close>

text \<open>
  A JavaScript string is a sequence of 16-bit code units. String literals of the source
  that are plain ASCII are written with \<open>js\<close>.
\<close>

type_synonym code_unit = "16 word"
type_synonym js_string = "code_unit list"

definition js :: "string \<Rightarrow> js_string" where
  "js s = map of_char s"

text \<open>
  \<^verbatim>\<open>String.prototype.trim\<close> strips WhiteSpace and LineTerminator code units from both
  ends: TAB, LF, VT, FF, CR, SP, NBSP, U+1680, U+2000..U+200A, U+2028, U+2029, U+202F,
  U+205F, U+3000 and U+FEFF.
\<close>

definition is_white_space :: "code_unit \<Rightarrow> bool" where
  "is_white_space c \<longleftrightarrow>
     c \<in> {0x09, 0x0A, 0x0B, 0x0C, 0x0D, 0x20, 0xA0, 0x1680, 0x2028, 0x2029,
          0x202F, 0x205F, 0x3000, 0xFEFF}
     \<or> (0x2000 \<le> c \<and> c \<le> 0x200A)"

definition trim :: "js_string \<Rightarrow> js_string" where
  "trim s = rev (dropWhile is_white_space (rev (dropWhile is_white_space s)))"

text \<open>
  \<^verbatim>\<open>Array.prototype.slice(start)\<close> with the end omitted: a negative start counts from the
  end of the array and is clamped at 0, a positive one is clamped at the length.
\<close>

definition slice :: "int \<Rightarrow> 'a list \<Rightarrow> 'a list" where
  "slice start xs =
     (let len = int (length xs);
          k = (if start < 0 then max (len + start) 0 else min start len)
      in drop (nat k) xs)"

section \<open>The chat page (web/src/app/page.tsx)\<close>

datatype Role = User | Assistant

record Source =
  sender :: js_string
  date :: js_string
  conversation :: js_string

text \<open>The optional field \<open>sources\<close> is \<open>None\<close> when the property is absent.\<close>

record Message =
  role :: Role
  content :: js_string
  sources :: "Source list option"

text \<open>The three \<^verbatim>\<open>useState\<close> cells of \<^verbatim>\<open>ChatPage\<close>.\<close>

record ChatState =
  messages :: "Message list"
  input :: js_string
  isLoading :: bool

definition initial_state :: ChatState where
  "initial_state = \<lparr>messages = [], input = [], isLoading = False\<rparr>"

text \<open>
  The calls to \<^verbatim>\<open>fetch\<close> that the client issues, one constructor per call site:
  \<^verbatim>\<open>POST /chat\<close> with the JSON body \<open>{query, conversation_history}\<close>,
  \<^verbatim>\<open>GET /search?query=..&limit=20\<close> and \<^verbatim>\<open>GET /conversations\<close>.
\<close>

datatype Request =
    PostChat js_string "Message list"
  | GetSearch js_string nat
  | GetConversations

text \<open>
  The value \<^verbatim>\<open>response.json()\<close> resolves to, as far as the pages tell values apart:
  \<^verbatim>\<open>null\<close>, of which no property can be read (the read throws a \<^verbatim>\<open>TypeError\<close>), or a
  value with the properties the page reads.
\<close>

datatype 'd Parsed = Null | Obj 'd

text \<open>
  How a \<^verbatim>\<open>fetch\<close> settles: the promise rejects (\<open>NetworkError\<close>), or it resolves to a
  response with its \<^verbatim>\<open>ok\<close> flag and its body; the body is \<open>None\<close> when
  \<^verbatim>\<open>response.json()\<close> rejects, and the parsed value otherwise.
\<close>

datatype 'd FetchOutcome = NetworkError | HttpResponse bool "'d option"

text \<open>
  The fields of the parsed \<^verbatim>\<open>/chat\<close> body that \<^verbatim>\<open>sendMessage\<close> reads, typed as the interface
  \<^verbatim>\<open>Message\<close> types the fields they are stored in.
\<close>

record ChatData =
  response :: js_string
  data_sources :: "Source list option"

datatype exn = FetchRejected | Error js_string | JsonRejected | TypeError | URIError

definition error_text :: js_string where
  "error_text =
     js ''Sorry, I encountered an error. Make sure the FastAPI server is running on port 8000.''"

text \<open>
  \<^verbatim>\<open>sendMessage\<close> up to its first \<^verbatim>\<open>await\<close>: the guard, the three state updates and the
  request handed to \<^verbatim>\<open>fetch\<close>. The history is sliced from \<^verbatim>\<open>messages\<close> as the handler's
  closure sees it, that is before the user's message is appended.
\<close>

definition sendMessage_submit :: "ChatState \<Rightarrow> ChatState \<times> Request option" where
  "sendMessage_submit st =
     (if trim (input st) = [] \<or> isLoading st then (st, None)
      else
        let userMessage = trim (input st) in
        (st\<lparr>input := [],
            messages := messages st @ [\<lparr>role = User, content = userMessage, sources = None\<rparr>],
            isLoading := True\<rparr>,
         Some (PostChat userMessage (slice (- 10) (messages st)))))"

text \<open>
  The \<^verbatim>\<open>try\<close> block after the fetch has settled: it throws, or it ends with the parsed
  body \<^verbatim>\<open>data\<close> and has passed \<^verbatim>\<open>setMessages\<close> an updater that closes over it. Nothing of
  \<^verbatim>\<open>data\<close> is read inside the block.
\<close>

definition try_block :: "ChatData Parsed FetchOutcome \<Rightarrow> exn + ChatData Parsed" where
  "try_block r =
     (case r of
        NetworkError \<Rightarrow> Inl FetchRejected
      | HttpResponse ok body \<Rightarrow>
          if \<not> ok then Inl (Error (js ''Failed to get response''))
          else (case body of
                  None \<Rightarrow> Inl JsonRejected
                | Some data \<Rightarrow> Inr data))"

text \<open>
  The updater of the \<^verbatim>\<open>try\<close> block,
  \<^verbatim>\<open>prev => [...prev, {role: 'assistant', content: data.response, sources: data.sources}]\<close>.
  It reads \<^verbatim>\<open>data.response\<close> when it is run, which throws for \<^verbatim>\<open>null\<close>.
\<close>

definition assistant_updater :: "ChatData Parsed \<Rightarrow> Message list \<Rightarrow> exn + Message list" where
  "assistant_updater data prev =
     (case data of
        Null \<Rightarrow> Inl TypeError
      | Obj d \<Rightarrow>
          Inr (prev @ [\<lparr>role = Assistant, content = response d, sources = data_sources d\<rparr>]))"

text \<open>The updater of the \<^verbatim>\<open>catch\<close> block.\<close>

definition catch_updater :: "Message list \<Rightarrow> exn + Message list" where
  "catch_updater prev =
     Inr (prev @ [\<lparr>role = Assistant, content = error_text, sources = None\<rparr>])"

text \<open>
  The rest of \<^verbatim>\<open>sendMessage\<close> and the render it causes. \<^verbatim>\<open>try\<close> or \<^verbatim>\<open>catch\<close> queue an
  updater of \<^verbatim>\<open>messages\<close>, \<^verbatim>\<open>finally\<close> queues \<^verbatim>\<open>isLoading := false\<close>, and the call returns.
  React runs the updater when it renders the component next, outside the \<^verbatim>\<open>try\<close>
  statement: when the updater throws, the render throws, and neither update is committed.
\<close>

definition sendMessage_settle :: "ChatData Parsed FetchOutcome \<Rightarrow> ChatState \<Rightarrow> exn + ChatState" where
  "sendMessage_settle r st =
     (let updater = (case try_block r of Inl e \<Rightarrow> catch_updater | Inr data \<Rightarrow> assistant_updater data)
      in case updater (messages st) of
           Inl e \<Rightarrow> Inl e
         | Inr ms \<Rightarrow> Inr (st\<lparr>messages := ms, isLoading := False\<rparr>))"

text \<open>
  The states the component commits in the course of one call of \<^verbatim>\<open>sendMessage\<close> whose
  fetch settles as \<open>r\<close>: the state held while the call awaits, then the state rendered
  after the call has returned, if that render does not throw. A call stopped by the
  guard has the unchanged state only.
\<close>

definition sendMessage_trace :: "ChatData Parsed FetchOutcome \<Rightarrow> ChatState \<Rightarrow> ChatState list" where
  "sendMessage_trace r st =
     (case sendMessage_submit st of
        (st1, None) \<Rightarrow> [st1]
      | (st1, Some req) \<Rightarrow>
          st1 # (case sendMessage_settle r st1 of Inl e \<Rightarrow> [] | Inr st2 \<Rightarrow> [st2]))"

text \<open>The state a call leaves the component in: the last one it has committed.\<close>

definition sendMessage :: "ChatData Parsed FetchOutcome \<Rightarrow> ChatState \<Rightarrow> ChatState" where
  "sendMessage r st = last (sendMessage_trace r st)"

text \<open>
  The page together with the fetches it has issued that have not settled yet. The events
  are the ones the handlers of the page react to: \<^verbatim>\<open>onChange\<close> of the textarea, a click
  on Send or the Enter key (both call \<^verbatim>\<open>sendMessage\<close>), and the settling of the oldest
  pending fetch, at which the suspended call resumes. Each handler runs to its next
  suspension point on the state the previous one has left. A render that throws is not
  caught by any error boundary of the page: the component is unmounted with the state it
  had committed last, and no handler of it runs again.
\<close>

record ChatPage =
  state :: ChatState
  in_flight :: "Request list"
  unmounted :: bool

datatype Event = Type js_string | Submit | Settle "ChatData Parsed FetchOutcome"

definition initial_page :: ChatPage where
  "initial_page = \<lparr>state = initial_state, in_flight = [], unmounted = False\<rparr>"

fun step :: "Event \<Rightarrow> ChatPage \<Rightarrow> ChatPage" where
  "step (Type s) p = (if unmounted p then p else p\<lparr>state := (state p)\<lparr>input := s\<rparr>\<rparr>)"
| "step Submit p =
     (if unmounted p then p
      else
        (case sendMessage_submit (state p) of
           (st', None) \<Rightarrow> p\<lparr>state := st'\<rparr>
         | (st', Some req) \<Rightarrow> p\<lparr>state := st', in_flight := in_flight p @ [req]\<rparr>))"
| "step (Settle r) p =
     (if unmounted p then p
      else
        (case in_flight p of
           [] \<Rightarrow> p
         | req # rest \<Rightarrow>
             (case sendMessage_settle r (state p) of
                Inl e \<Rightarrow> p\<lparr>in_flight := rest, unmounted := True\<rparr>
              | Inr st' \<Rightarrow> p\<lparr>state := st', in_flight := rest\<rparr>)))"

fun run :: "Event list \<Rightarrow> ChatPage \<Rightarrow> ChatPage" where
  "run [] p = p"
| "run (e # es) p = run es (step e p)"

text \<open>The request has failed when the fetch rejects or the status is not OK.\<close>

fun failed :: "'d FetchOutcome \<Rightarrow> bool" where
  "failed NetworkError = True"
| "failed (HttpResponse ok body) = (\<not> ok)"

subsection \<open>Rendering of a message\<close>

text \<open>
  The element tree a component returns: text, or an element with its tag, its
  \<^verbatim>\<open>className\<close> and its children.
\<close>

datatype Node = Text js_string | Element string string "Node list"

fun text_content :: "Node \<Rightarrow> js_string" where
  "text_content (Text s) = s"
| "text_content (Element tag cls children) = concat (map text_content children)"

text \<open>The separator between the fields of a citation: space, U+2022, space.\<close>

definition bullet :: js_string where
  "bullet = [0x20, 0x2022, 0x20]"

definition render_source :: "Source \<Rightarrow> Node" where
  "render_source source =
     Element ''div'' ''text-xs text-gray-500''
       [Element ''strong'' [] [Text (sender source)], Text bullet, Text (date source),
        Text bullet, Text (conversation source)]"

text \<open>
  \<^verbatim>\<open>message.sources && message.sources.length > 0 && (...)\<close>: nothing is rendered when
  the field is absent or the array is empty.
\<close>

definition render_sources :: "Message \<Rightarrow> Node list" where
  "render_sources message =
     (case sources message of
        None \<Rightarrow> []
      | Some srcs \<Rightarrow>
          if length srcs > 0 then
            [Element ''div'' ''mt-3 pt-3 border-t border-gray-200''
               [Element ''p'' ''text-xs font-medium text-gray-600 mb-1'' [Text (js ''Sources:'')],
                Element ''div'' ''space-y-1'' (map render_source srcs)]]
          else [])"

definition render_message :: "Message \<Rightarrow> Node" where
  "render_message message =
     Element ''div''
       (''flex '' @ (if role message = User then ''justify-end'' else ''justify-start''))
       [Element ''div''
          (''max-w-3xl rounded-lg px-4 py-2 '' @
             (if role message = User then ''bg-blue-500 text-white''
              else ''bg-white text-gray-900 border border-gray-200''))
          (Element ''p'' ''whitespace-pre-wrap'' [Text (content message)]
             # render_sources message)]"

section \<open>The search page (web/src/app/search/page.tsx)\<close>

text \<open>
  The four \<^verbatim>\<open>useState\<close> cells of \<^verbatim>\<open>SearchPage\<close>; the cell \<^verbatim>\<open>isLoading\<close> of this page is
  \<open>search_isLoading\<close>. The type of a search result is left open: \<^verbatim>\<open>search\<close> stores the
  array as it was received.
\<close>

record 'r SearchState =
  query :: js_string
  results :: "'r list"
  search_isLoading :: bool
  hasSearched :: bool

text \<open>
  \<^verbatim>\<open>encodeURIComponent\<close> throws a \<^verbatim>\<open>URIError\<close> for a string that is not well-formed UTF-16:
  one with a high surrogate (D800..DBFF) that no low surrogate (DC00..DFFF) follows, or
  with a low surrogate that follows no high one.
\<close>

definition is_high_surrogate :: "code_unit \<Rightarrow> bool" where
  "is_high_surrogate c \<longleftrightarrow> 0xD800 \<le> c \<and> c \<le> 0xDBFF"

definition is_low_surrogate :: "code_unit \<Rightarrow> bool" where
  "is_low_surrogate c \<longleftrightarrow> 0xDC00 \<le> c \<and> c \<le> 0xDFFF"

fun well_formed :: "js_string \<Rightarrow> bool" where
  "well_formed [] = True"
| "well_formed [c] = (\<not> is_high_surrogate c \<and> \<not> is_low_surrogate c)"
| "well_formed (c # d # cs) =
     (if is_high_surrogate c then is_low_surrogate d \<and> well_formed cs
      else \<not> is_low_surrogate c \<and> well_formed (d # cs))"

text \<open>
  \<^verbatim>\<open>search\<close> up to the call of \<^verbatim>\<open>fetch\<close>: the guard, the two state updates and the
  request, whose URL carries the encoded query and the limit 20. No request is issued
  when the guard returns or when the encoding of the query throws.
\<close>

definition search_submit :: "'r SearchState \<Rightarrow> 'r SearchState \<times> Request option" where
  "search_submit st =
     (if trim (query st) = [] then (st, None)
      else
        (st\<lparr>search_isLoading := True, hasSearched := True\<rparr>,
         if well_formed (query st) then Some (GetSearch (query st) 20) else None))"

text \<open>
  The parsed body is represented by its property \<^verbatim>\<open>results\<close>, \<open>None\<close> when the property
  is absent or falsy, so that \<^verbatim>\<open>data.results || []\<close> is the empty array. The property is
  read inside the \<^verbatim>\<open>try\<close> block, where the argument of \<^verbatim>\<open>setResults\<close> is evaluated.
\<close>

definition search_try ::
  "'r list option Parsed FetchOutcome \<Rightarrow> 'r SearchState \<Rightarrow> exn + 'r SearchState" where
  "search_try r st =
     (case r of
        NetworkError \<Rightarrow> Inl FetchRejected
      | HttpResponse ok body \<Rightarrow>
          if \<not> ok then Inl (Error (js ''Search failed''))
          else (case body of
                  None \<Rightarrow> Inl JsonRejected
                | Some Null \<Rightarrow> Inl TypeError
                | Some (Obj data) \<Rightarrow>
                    Inr (st\<lparr>results := (case data of None \<Rightarrow> [] | Some rs \<Rightarrow> rs)\<rparr>)))"

text \<open>
  The \<^verbatim>\<open>catch\<close> block followed by \<^verbatim>\<open>finally\<close>: the state, and what \<^verbatim>\<open>console.error\<close> has
  written.
\<close>

definition search_catch :: "exn \<Rightarrow> 'r SearchState \<Rightarrow> 'r SearchState \<times> exn list" where
  "search_catch e st = (st\<lparr>results := [], search_isLoading := False\<rparr>, [e])"

text \<open>The state after \<^verbatim>\<open>try\<close>, \<^verbatim>\<open>catch\<close> and \<^verbatim>\<open>finally\<close>, and the console.\<close>

definition search_settle ::
  "'r list option Parsed FetchOutcome \<Rightarrow> 'r SearchState \<Rightarrow> 'r SearchState \<times> exn list" where
  "search_settle r st =
     (case search_try r st of
        Inl e \<Rightarrow> search_catch e st
      | Inr s \<Rightarrow> (s\<lparr>search_isLoading := False\<rparr>, []))"

definition search ::
  "'r list option Parsed FetchOutcome \<Rightarrow> 'r SearchState \<Rightarrow> 'r SearchState \<times> exn list" where
  "search r st =
     (case search_submit st of
        (st1, Some req) \<Rightarrow> search_settle r st1
      | (st1, None) \<Rightarrow>
          if trim (query st) = [] then (st1, []) else search_catch URIError st1)"

text \<open>
  Which of the four branches below the search box the page renders: the loading
  skeleton, the list of results with its "Found n results" line, the "No Results Found"
  block, or the introduction shown before the first search.
\<close>

datatype 'r SearchView = Skeleton | ResultList "'r list" js_string | NoResultsFound | Introduction

definition render_results :: "'r SearchState \<Rightarrow> 'r SearchView" where
  "render_results st =
     (if search_isLoading st then Skeleton
      else if hasSearched st then
        (if length (results st) > 0 then ResultList (results st) (query st)
         else NoResultsFound)
      else Introduction)"

section \<open>The conversations page (web/src/app/conversations/page.tsx)\<close>

record 'c ConversationsState =
  conversations :: "'c list"
  conversations_isLoading :: bool
  error :: "js_string option"

definition fetchConversations_request :: Request where
  "fetchConversations_request = GetConversations"

definition fetchConversations_settle ::
  "'c list option Parsed FetchOutcome \<Rightarrow> 'c ConversationsState \<Rightarrow> 'c ConversationsState" where
  "fetchConversations_settle r st =
     (let st' =
        (case r of
           HttpResponse True (Some (Obj data)) \<Rightarrow>
             st\<lparr>conversations := (case data of None \<Rightarrow> [] | Some cs \<Rightarrow> cs)\<rparr>
         | _ \<Rightarrow>
             st\<lparr>error := Some (js
               ''Failed to load conversations. Make sure the FastAPI server is running.'')\<rparr>)
      in st'\<lparr>conversations_isLoading := False\<rparr>)"

text \<open>
  The early returns of \<^verbatim>\<open>ConversationsPage\<close>: the skeleton while loading, the error block
  when \<^verbatim>\<open>error\<close> is set, and the list otherwise (with its own text when it is empty).
\<close>

datatype 'c ConversationsView = LoadingView | ErrorView js_string | ListView "'c list"

definition render_conversations :: "'c ConversationsState \<Rightarrow> 'c ConversationsView" where
  "render_conversations st =
     (if conversations_isLoading st then LoadingView
      else (case error st of
              Some msg \<Rightarrow> if msg \<noteq> [] then ErrorView msg else ListView (conversations st)
            | None \<Rightarrow> ListView (conversations st)))"

section \<open>Highlighting of the query in a search result\<close>

text \<open>
  The class \<^verbatim>\<open>[.*+?^${}()|[\]\\]\<close> of the escaping step of \<^verbatim>\<open>highlightQuery\<close>, as code units
  in the order of the source: \<^verbatim>\<open>. * + ? ^ $ { } ( ) | [ ] \\<close>.
\<close>

definition backslash :: code_unit where
  "backslash = 0x5C"

definition lparen :: code_unit where
  "lparen = 0x28"

definition rparen :: code_unit where
  "rparen = 0x29"

definition metachars :: "code_unit list" where
  "metachars = [0x2E, 0x2A, 0x2B, 0x3F, 0x5E, 0x24, 0x7B, 0x7D, 0x28, 0x29, 0x7C, 0x5B, 0x5D, 0x5C]"

text \<open>
  \<^verbatim>\<open>query.replace(/[...]/g, '\\$&')\<close>: every code unit of the class is replaced by a
  backslash followed by itself (\<^verbatim>\<open>$&\<close> is the match), every other one is kept.
\<close>

definition escape_metachars :: "js_string \<Rightarrow> js_string" where
  "escape_metachars q = concat (map (\<lambda>c. if c \<in> set metachars then [backslash, c] else [c]) q)"

subsection \<open>The regular expressions of the runtime\<close>

text \<open>
  The SyntaxCharacters of the pattern grammar of ECMAScript, in the order of the grammar:
  \<^verbatim>\<open>^ $ \ . * + ? ( ) [ ] { } |\<close>. Every other code unit is a PatternCharacter and stands
  for itself in a pattern.
\<close>

definition syntax_characters :: "code_unit list" where
  "syntax_characters =
     [0x5E, 0x24, 0x5C, 0x2E, 0x2A, 0x2B, 0x3F, 0x28, 0x29, 0x5B, 0x5D, 0x7B, 0x7D, 0x7C]"

text \<open>The quantifiers \<^verbatim>\<open>* + ?\<close>, which need a term before them.\<close>

definition quantifiers :: "code_unit list" where
  "quantifiers = [0x2A, 0x2B, 0x3F]"

text \<open>
  The constructor \<^verbatim>\<open>new RegExp(pattern, 'gi')\<close> on the fragment of the pattern grammar made
  of PatternCharacters, SyntaxCharacters escaped by a backslash and capture groups. A
  backslash at the end of the pattern, a closing parenthesis without an opening one, a
  group left open and a quantifier with nothing before it throw \<open>SyntaxError\<close>. Every other
  construct (a SyntaxCharacter that is not escaped, an escape of another character) is
  outside the fragment and answered by \<open>Unsupported\<close>. An expression whose literal text is
  longer than the engine can compile is refused with \<open>RegExpTooLarge\<close> (the
  \<^verbatim>\<open>SyntaxError\<close> "Regular expression too large" of V8).
\<close>

datatype RegExpError = SyntaxError | Unsupported | RegExpTooLarge

datatype Rx = Chr code_unit | Group "Rx list"

text \<open>
  One pass over the pattern with a stack of the groups that are open, each holding its
  terms in reverse; the bottom of the stack is the pattern itself.
\<close>

fun parse_pattern :: "js_string \<Rightarrow> Rx list \<Rightarrow> Rx list list \<Rightarrow> RegExpError + Rx list" where
  "parse_pattern [] cur stack = (if stack = [] then Inr (rev cur) else Inl SyntaxError)"
| "parse_pattern (c # cs) cur stack =
     (if c = backslash then
        (case cs of
           [] \<Rightarrow> Inl SyntaxError
         | d # ds \<Rightarrow>
             if d \<in> set syntax_characters then parse_pattern ds (Chr d # cur) stack
             else Inl Unsupported)
      else if c = lparen then parse_pattern cs [] (cur # stack)
      else if c = rparen then
        (case stack of
           [] \<Rightarrow> Inl SyntaxError
         | outer # rest \<Rightarrow> parse_pattern cs (Group (rev cur) # outer) rest)
      else if c \<in> set quantifiers \<and> cur = [] then Inl SyntaxError
      else if c \<in> set syntax_characters then Inl Unsupported
      else parse_pattern cs (Chr c # cur) stack)"

text \<open>The characters a regular expression of the fragment matches, in order.\<close>

fun literal_of :: "Rx \<Rightarrow> js_string" where
  "literal_of (Chr c) = [c]"
| "literal_of (Group rs) = concat (map literal_of rs)"

text \<open>
  The bound of the engine on the literal text of an expression is the parameter \<open>limit\<close>;
  in V8 it is 32767 code units. V8 raises the error when it compiles the expression, at
  the latest at its first use, which \<^verbatim>\<open>highlightQuery\<close> makes in the statement after the
  constructor.
\<close>

definition RegExp_new :: "nat \<Rightarrow> js_string \<Rightarrow> RegExpError + Rx list" where
  "RegExp_new limit pattern =
     (case parse_pattern pattern [] [] of
        Inl e \<Rightarrow> Inl e
      | Inr regex \<Rightarrow>
          if limit < length (concat (map literal_of regex)) then Inl RegExpTooLarge
          else Inr regex)"

text \<open>
  Where the first capture group lies inside a match: its offset and its length, or \<open>None\<close>
  when the expression has no group.
\<close>

fun first_group :: "Rx list \<Rightarrow> (nat \<times> nat) option" where
  "first_group [] = None"
| "first_group (Chr c # rs) = map_option (\<lambda>(off, len). (Suc off, len)) (first_group rs)"
| "first_group (Group g # rs) = Some (0, length (concat (map literal_of g)))"

text \<open>
  Matching with the flag \<^verbatim>\<open>i\<close> compares code units after the Canonicalize operation of the
  runtime, a table of the Unicode case mappings that is taken as the parameter \<open>canon\<close>.
\<close>

definition matches_at :: "(code_unit \<Rightarrow> code_unit) \<Rightarrow> js_string \<Rightarrow> js_string \<Rightarrow> bool" where
  "matches_at canon lit text \<longleftrightarrow>
     length lit \<le> length text \<and> map canon (take (length lit) text) = map canon lit"

text \<open>
  \<^verbatim>\<open>text.replace(regex, replacement)\<close> with the flag \<^verbatim>\<open>g\<close>: the matches are taken from left
  to right without overlap, each is replaced by \<open>subst\<close> of the matched text, and after an
  empty match the scan moves on by one code unit.
\<close>

function replace_global ::
  "(code_unit \<Rightarrow> code_unit) \<Rightarrow> js_string \<Rightarrow> (js_string \<Rightarrow> js_string) \<Rightarrow> js_string \<Rightarrow> js_string" where
  "replace_global canon lit subst text =
     (if matches_at canon lit text then
        subst (take (length lit) text) @
          (if lit = [] then
             (case text of [] \<Rightarrow> [] | c # cs \<Rightarrow> c # replace_global canon lit subst cs)
           else replace_global canon lit subst (drop (length lit) text))
      else (case text of [] \<Rightarrow> [] | c # cs \<Rightarrow> c # replace_global canon lit subst cs))"
  by pat_completeness auto
termination
proof (relation "measure (\<lambda>(canon, lit, subst, s). length s)")
  fix canon :: "code_unit \<Rightarrow> code_unit" and lit s :: js_string
    and subst :: "js_string \<Rightarrow> js_string"
  assume "matches_at canon lit s" and "lit \<noteq> []"
  then have "0 < length lit" and "length lit \<le> length s"
    by (simp_all add: matches_at_def)
  then have "length s - length lit < length s"
    by arith
  then have "length (drop (length lit) s) < length s"
    by simp
  then show "((canon, lit, subst, drop (length lit) s), (canon, lit, subst, s))
             \<in> measure (\<lambda>(canon, lit, subst, s). length s)"
    by simp
qed auto

declare replace_global.simps [simp del]

text \<open>
  The replacement \<^verbatim>\<open><mark className="bg-yellow-200">$1</mark>\<close>: \<^verbatim>\<open>$1\<close> is the text of the
  first capture group, and stays the two characters \<^verbatim>\<open>$1\<close> when there is no group.
\<close>

definition mark_replacement :: "Rx list \<Rightarrow> js_string \<Rightarrow> js_string" where
  \<open>mark_replacement regex matched =
     js ''<mark className="bg-yellow-200">'' @
     (case first_group regex of
        None \<Rightarrow> js ''$1''
      | Some (off, len) \<Rightarrow> take len (drop off matched)) @
     js ''</mark>''\<close>

text \<open>
  \<^verbatim>\<open>highlightQuery\<close> in a runtime with the bound \<open>limit\<close> and the case folding \<open>canon\<close>.
\<close>

definition highlightQuery ::
  "nat \<Rightarrow> (code_unit \<Rightarrow> code_unit) \<Rightarrow> js_string \<Rightarrow> js_string \<Rightarrow> RegExpError + js_string" where
  "highlightQuery limit canon text q =
     (if trim q = [] then Inr text
      else
        (case RegExp_new limit (lparen # escape_metachars q @ [rparen]) of
           Inl e \<Rightarrow> Inl e
         | Inr regex \<Rightarrow>
             Inr (replace_global canon (concat (map literal_of regex))
                    (mark_replacement regex) text)))"

section \<open>Backend calls and the public surface of the core\<close>

datatype Method = GET | POST

text \<open>The method and the path of the URL at each call site of \<^verbatim>\<open>fetch\<close>.\<close>

fun endpoint :: "Request \<Rightarrow> Method \<times> string" where
  "endpoint (PostChat q history) = (POST, ''/chat'')"
| "endpoint (GetSearch q limit) = (GET, ''/search'')"
| "endpoint GetConversations = (GET, ''/conversations'')"

text \<open>
  The two public calls of the core as the specification names them, and the endpoints of
  the server (server/README.md) that stand for them: \<^verbatim>\<open>POST /chat\<close> answers a question,
  \<^verbatim>\<open>POST /index\<close> starts an indexing run.
\<close>

datatype CoreCall = Query | RunIndex

definition spec_public_call :: "Method \<times> string \<Rightarrow> CoreCall option" where
  "spec_public_call e =
     (if e = (POST, ''/chat'') then Some Query
      else if e = (POST, ''/index'') then Some RunIndex
      else None)"

section \<open>Normalisation of timestamps by the Record Reader\<close>

text \<open>
  Modelled from the spec: the Record Reader and its normalisation of timestamps are not
  among the sources. Section 4.1 of the specification asks for a conversion from the
  archive's epoch to the wall-clock epoch by a fixed offset in exact integer arithmetic.
  The sources hold the formula only as a comment on the schema in PRD.md,
  \<^verbatim>\<open>datetime(message.date/1000000000 + 978307200, 'unixepoch')\<close>: the column is an integer
  of nanoseconds since 2001-01-01, the division of two integers in SQLite truncates
  towards zero, and the result is in seconds since 1970-01-01.
\<close>

definition apple_to_unix :: "int \<Rightarrow> int" where
  "apple_to_unix raw = raw sdiv 1000000000 + 978307200"

text \<open>
  Modelled from the spec: the time fields of a record of the archive, which no source
  file reads. PITFALLS.md (pitfall 20) names them: \<^verbatim>\<open>date\<close>, \<^verbatim>\<open>date_read\<close> and
  \<^verbatim>\<open>date_delivered\<close>.
\<close>

record RawTimes =
  raw_date :: int
  raw_date_read :: int
  raw_date_delivered :: int

text \<open>
  Modelled from the spec: the same fields after the normalisation, in seconds of the
  wall-clock epoch, as the components downstream of the Record Reader consume them.
\<close>

record NormalizedTimes =
  unix_date :: int
  unix_date_read :: int
  unix_date_delivered :: int

text \<open>
  Modelled from the spec: the step of the Record Reader that normalises a record, absent
  from the sources. Section 4.1: the conversion is "applied uniformly to all time fields
  consumed downstream".
\<close>

definition normalize_times :: "RawTimes \<Rightarrow> NormalizedTimes" where
  "normalize_times t =
     \<lparr>unix_date = apple_to_unix (raw_date t),
      unix_date_read = apple_to_unix (raw_date_read t),
      unix_date_delivered = apple_to_unix (raw_date_delivered t)\<rparr>"

section \<open>Facts about strings and the chat page\<close>

lemma js_nonempty: "js (c # cs) \<noteq> []"
  by (simp add: js_def)

lemma trim_hi: "trim (js ''hi'') = js ''hi''"
  by (simp add: trim_def js_def is_white_space_def)

lemma trim_padded_hi: "trim (js '' hi  '') = js ''hi''"
  by (simp add: trim_def js_def is_white_space_def)

lemma trim_blank: "trim (js ''  '') = []"
  by (simp add: trim_def js_def is_white_space_def)

lemma trim_dinner: "trim (js ''dinner'') = js ''dinner''"
  by (simp add: trim_def js_def is_white_space_def)

lemma well_formed_dinner: "well_formed (js ''dinner'')"
  by (simp add: js_def is_high_surrogate_def is_low_surrogate_def)

lemma slice_last_ten: "slice (- 10) xs = drop (length xs - 10) xs"
  by (simp add: slice_def Let_def max_def nat_diff_distrib')

lemma submit_accepted:
  "trim (input st) \<noteq> [] \<Longrightarrow> \<not> isLoading st \<Longrightarrow>
   sendMessage_submit st =
     (st\<lparr>input := [],
         messages := messages st @ [\<lparr>role = User, content = trim (input st), sources = None\<rparr>],
         isLoading := True\<rparr>,
      Some (PostChat (trim (input st)) (slice (- 10) (messages st))))"
  by (simp add: sendMessage_submit_def Let_def)

lemma submit_rejected:
  "trim (input st) = [] \<or> isLoading st \<Longrightarrow> sendMessage_submit st = (st, None)"
  by (simp add: sendMessage_submit_def)

lemma settle_failed:
  "failed r \<Longrightarrow>
   sendMessage_settle r st =
     Inr (st\<lparr>messages := messages st @
               [\<lparr>role = Assistant, content = error_text, sources = None\<rparr>],
             isLoading := False\<rparr>)"
  by (cases r) (simp_all add: sendMessage_settle_def try_block_def catch_updater_def)

lemma settle_not_json:
  "sendMessage_settle (HttpResponse True None) st =
     Inr (st\<lparr>messages := messages st @
               [\<lparr>role = Assistant, content = error_text, sources = None\<rparr>],
             isLoading := False\<rparr>)"
  by (simp add: sendMessage_settle_def try_block_def catch_updater_def)

lemma settle_answer:
  "sendMessage_settle (HttpResponse True (Some (Obj d))) st =
     Inr (st\<lparr>messages := messages st @
               [\<lparr>role = Assistant, content = response d, sources = data_sources d\<rparr>],
             isLoading := False\<rparr>)"
  by (simp add: sendMessage_settle_def try_block_def assistant_updater_def)

lemma settle_null:
  "sendMessage_settle (HttpResponse True (Some Null)) st = Inl TypeError"
  by (simp add: sendMessage_settle_def try_block_def assistant_updater_def)

lemma outcome_cases:
  obtains "failed r" | "r = HttpResponse True None" | "r = HttpResponse True (Some Null)"
    | d where "r = HttpResponse True (Some (Obj d))"
proof (cases r)
  case NetworkError
  then show ?thesis using that(1) by simp
next
  case (HttpResponse ok body)
  show ?thesis
  proof (cases ok)
    case False
    then show ?thesis using HttpResponse that(1) by simp
  next
    case True
    show ?thesis
    proof (cases body)
      case None
      then show ?thesis using HttpResponse True that(2) by simp
    next
      case (Some v)
      then show ?thesis using HttpResponse True that(3,4) by (cases v) simp_all
    qed
  qed
qed

lemma settle_throws_iff:
  "(\<exists>e. sendMessage_settle r st = Inl e) \<longleftrightarrow> r = HttpResponse True (Some Null)"
  by (rule outcome_cases [of r])
     (auto simp: settle_failed settle_not_json settle_answer settle_null)

lemma settle_commits:
  assumes "r \<noteq> HttpResponse True (Some Null)"
  shows "\<exists>a. sendMessage_settle r st =
               Inr (st\<lparr>messages := messages st @ [a], isLoading := False\<rparr>)
           \<and> role a = Assistant
           \<and> (case r of
                 HttpResponse True (Some (Obj data)) \<Rightarrow>
                   a = \<lparr>role = Assistant, content = response data, sources = data_sources data\<rparr>
               | _ \<Rightarrow> a = \<lparr>role = Assistant, content = error_text, sources = None\<rparr>)"
proof (rule outcome_cases [of r])
  assume "failed r"
  then show ?thesis by (cases r) (auto simp: settle_failed)
next
  assume "r = HttpResponse True None"
  then show ?thesis by (simp add: settle_not_json)
next
  assume "r = HttpResponse True (Some Null)"
  with assms show ?thesis by simp
next
  fix d assume "r = HttpResponse True (Some (Obj d))"
  then show ?thesis by (simp add: settle_answer)
qed

lemma trace_accepted:
  "trim (input st) \<noteq> [] \<Longrightarrow> \<not> isLoading st \<Longrightarrow>
   sendMessage_trace r st =
     st\<lparr>input := [],
        messages := messages st @ [\<lparr>role = User, content = trim (input st), sources = None\<rparr>],
        isLoading := True\<rparr>
     # (case sendMessage_settle r
              (st\<lparr>input := [],
                  messages := messages st @
                    [\<lparr>role = User, content = trim (input st), sources = None\<rparr>],
                  isLoading := True\<rparr>) of
          Inl e \<Rightarrow> [] | Inr st2 \<Rightarrow> [st2])"
  by (simp add: sendMessage_trace_def submit_accepted)

lemma step_in_flight:
  assumes one: "length (in_flight p) \<le> 1"
    and pending: "in_flight p \<noteq> [] \<longleftrightarrow> isLoading (state p) \<and> \<not> unmounted p"
  shows "length (in_flight (step e p)) \<le> 1
         \<and> (in_flight (step e p) \<noteq> [] \<longleftrightarrow>
              isLoading (state (step e p)) \<and> \<not> unmounted (step e p))"
proof (cases "unmounted p")
  case True
  then have "step e p = p" by (cases e) simp_all
  then show ?thesis using assms by simp
next
  case mounted: False
  show ?thesis
  proof (cases e)
    case (Type s)
    then show ?thesis using assms mounted by simp
  next
    case Submit
    show ?thesis
    proof (cases "trim (input (state p)) = [] \<or> isLoading (state p)")
      case True
      then show ?thesis using assms mounted Submit by (simp add: submit_rejected)
    next
      case False
      then have "in_flight p = []" using pending by auto
      then show ?thesis using False mounted Submit by (simp add: submit_accepted)
    qed
  next
    case (Settle r)
    show ?thesis
    proof (cases "in_flight p")
      case Nil
      then show ?thesis using assms mounted Settle by simp
    next
      case (Cons req rest)
      then have rest: "rest = []" using one by simp
      show ?thesis
      proof (cases "sendMessage_settle r (state p)")
        case (Inl e)
        then show ?thesis using Cons rest mounted Settle by simp
      next
        case (Inr st')
        then have "\<not> isLoading st'"
          by (auto simp: sendMessage_settle_def Let_def split: sum.splits)
        then show ?thesis using Inr Cons rest mounted Settle by simp
      qed
    qed
  qed
qed

lemma run_in_flight:
  "length (in_flight p) \<le> 1 \<Longrightarrow>
   (in_flight p \<noteq> [] \<longleftrightarrow> isLoading (state p) \<and> \<not> unmounted p) \<Longrightarrow>
   length (in_flight (run es p)) \<le> 1
   \<and> (in_flight (run es p) \<noteq> [] \<longleftrightarrow>
        isLoading (state (run es p)) \<and> \<not> unmounted (run es p))"
proof (induction es arbitrary: p)
  case Nil
  then show ?case by simp
next
  case (Cons e es)
  from step_in_flight [OF Cons.prems, of e]
  have "length (in_flight (step e p)) \<le> 1"
    and "in_flight (step e p) \<noteq> [] \<longleftrightarrow>
              isLoading (state (step e p)) \<and> \<not> unmounted (step e p)"
    by simp_all
  from Cons.IH [OF this] show ?case by simp
qed

section \<open>Claims about the chat page\<close>

text \<open>
  Claim C1, as stated: when the backend call of a turn fails, the message list is the
  one from before the call. It does not hold. From the empty list with the input \<open>hi\<close>
  and a fetch that rejects, the list holds two messages afterwards: the user's text and
  the error text of the \<^verbatim>\<open>catch\<close> block.
\<close>

theorem failed_send_changes_messages:
  "failed (NetworkError :: ChatData Parsed FetchOutcome)
   \<and> messages (initial_state\<lparr>input := js ''hi''\<rparr>) = []
   \<and> messages (sendMessage NetworkError (initial_state\<lparr>input := js ''hi''\<rparr>)) =
       [\<lparr>role = User, content = js ''hi'', sources = None\<rparr>,
        \<lparr>role = Assistant, content = error_text, sources = None\<rparr>]"
  by (simp add: sendMessage_def trace_accepted settle_failed initial_state_def trim_hi
      js_nonempty)

text \<open>
  Claim C1, amended: when the backend call of an accepted question fails (the fetch
  rejects or the status is not OK), the turn is recorded: the message list grows by the
  user's trimmed text followed by one assistant message with the fixed error text and no
  sources, the input is empty and the page is no longer loading.
\<close>

theorem failed_send_records_error_turn:
  assumes "failed r" and "trim (input st) \<noteq> []" and "\<not> isLoading st"
  shows "sendMessage r st =
           \<lparr>messages = messages st @
              [\<lparr>role = User, content = trim (input st), sources = None\<rparr>,
               \<lparr>role = Assistant, content = error_text, sources = None\<rparr>],
            input = [], isLoading = False\<rparr>"
  using assms by (simp add: sendMessage_def trace_accepted settle_failed)

theorem failed_send_records_error_turn_witness:
  "failed (HttpResponse False None :: ChatData Parsed FetchOutcome)
   \<and> trim (input (initial_state\<lparr>input := js ''hi''\<rparr>)) \<noteq> []
   \<and> \<not> isLoading (initial_state\<lparr>input := js ''hi''\<rparr>)
   \<and> sendMessage (HttpResponse False None) (initial_state\<lparr>input := js ''hi''\<rparr>) =
        \<lparr>messages =
           [\<lparr>role = User, content = js ''hi'', sources = None\<rparr>,
            \<lparr>role = Assistant, content = error_text, sources = None\<rparr>],
         input = [], isLoading = False\<rparr>"
  using failed_send_records_error_turn
          [of "HttpResponse False None" "initial_state\<lparr>input := js ''hi''\<rparr>"]
  by (simp add: initial_state_def trim_hi js_nonempty)




text \<open>
  Claim C4: in a session at most one question is in flight. After any sequence of typing,
  submitting and settling from the initial page, at most one fetch is pending; while one
  is pending the page is loading and a further submit changes nothing, neither the state
  nor the pending fetch. When the pending fetch settles, none is pending; then the page
  is no longer loading and accepts questions again, unless the response was an OK response
  with the body \<^verbatim>\<open>null\<close>: in that case, and in no other, the render throws and the page
  is unmounted, after which a submit changes nothing either.
\<close>

theorem one_question_in_flight:
  "length (in_flight (run es initial_page)) \<le> 1
   \<and> (in_flight (run es initial_page) \<noteq> [] \<longrightarrow>
        isLoading (state (run es initial_page))
        \<and> step Submit (run es initial_page) = run es initial_page)
   \<and> (in_flight (run es initial_page) \<noteq> [] \<longrightarrow>
        in_flight (step (Settle r) (run es initial_page)) = []
        \<and> (unmounted (step (Settle r) (run es initial_page))
             \<longleftrightarrow> r = HttpResponse True (Some Null))
        \<and> (r \<noteq> HttpResponse True (Some Null) \<longrightarrow>
             \<not> isLoading (state (step (Settle r) (run es initial_page)))))
   \<and> (unmounted (run es initial_page) \<longrightarrow>
        step Submit (run es initial_page) = run es initial_page)"
proof -
  let ?p = "run es initial_page"
  have inv: "length (in_flight ?p) \<le> 1
     \<and> (in_flight ?p \<noteq> [] \<longleftrightarrow> isLoading (state ?p) \<and> \<not> unmounted ?p)"
    by (rule run_in_flight) (simp_all add: initial_page_def initial_state_def)
  have noop: "step Submit ?p = ?p" if "in_flight ?p \<noteq> []"
    using that inv by (simp add: submit_rejected)
  have settled: "in_flight (step (Settle r) ?p) = []
        \<and> (unmounted (step (Settle r) ?p) \<longleftrightarrow> r = HttpResponse True (Some Null))
        \<and> (r \<noteq> HttpResponse True (Some Null) \<longrightarrow>
             \<not> isLoading (state (step (Settle r) ?p)))" if "in_flight ?p \<noteq> []"
  proof (cases "in_flight ?p")
    case Nil
    with that show ?thesis by simp
  next
    case (Cons req rest)
    then have rest: "rest = []" using inv by simp
    have mounted: "\<not> unmounted ?p" using that inv by simp
    show ?thesis
    proof (cases "r = HttpResponse True (Some Null)")
      case True
      then show ?thesis using Cons rest mounted by (simp add: settle_null)
    next
      case False
      from settle_commits [OF False, of "state ?p"] obtain a where
        "sendMessage_settle r (state ?p) =
           Inr ((state ?p)\<lparr>messages := messages (state ?p) @ [a], isLoading := False\<rparr>)"
        by blast
      then show ?thesis using False Cons rest mounted by simp
    qed
  qed
  have gone: "step Submit ?p = ?p" if "unmounted ?p"
    using that by simp
  from inv noop settled gone show ?thesis by blast
qed

theorem one_question_in_flight_witness:
  "in_flight (run [Type (js ''hi''), Submit, Type (js ''hello'')] initial_page)
     = [PostChat (js ''hi'') []]
   \<and> step Submit (run [Type (js ''hi''), Submit, Type (js ''hello'')] initial_page)
     = run [Type (js ''hi''), Submit, Type (js ''hello'')] initial_page
   \<and> in_flight (step (Settle NetworkError)
        (run [Type (js ''hi''), Submit, Type (js ''hello'')] initial_page)) = []
   \<and> \<not> isLoading (state (step (Settle NetworkError)
        (run [Type (js ''hi''), Submit, Type (js ''hello'')] initial_page)))
   \<and> unmounted (run [Type (js ''hi''), Submit, Settle (HttpResponse True (Some Null))]
        initial_page)
   \<and> step Submit (run [Type (js ''hi''), Submit, Settle (HttpResponse True (Some Null))]
        initial_page)
     = run [Type (js ''hi''), Submit, Settle (HttpResponse True (Some Null))] initial_page"
proof -
  have r: "in_flight (run [Type (js ''hi''), Submit, Type (js ''hello'')] initial_page)
     = [PostChat (js ''hi'') []]"
    by (simp add: initial_page_def initial_state_def submit_accepted trim_hi js_nonempty
        slice_def)
  have u: "unmounted (run [Type (js ''hi''), Submit, Settle (HttpResponse True (Some Null))]
        initial_page)"
    by (simp add: initial_page_def initial_state_def submit_accepted trim_hi js_nonempty
        slice_def settle_null)
  from r one_question_in_flight [of "[Type (js ''hi''), Submit, Type (js ''hello'')]" NetworkError]
  have a: "step Submit (run [Type (js ''hi''), Submit, Type (js ''hello'')] initial_page)
     = run [Type (js ''hi''), Submit, Type (js ''hello'')] initial_page
   \<and> in_flight (step (Settle NetworkError)
        (run [Type (js ''hi''), Submit, Type (js ''hello'')] initial_page)) = []
   \<and> \<not> isLoading (state (step (Settle NetworkError)
        (run [Type (js ''hi''), Submit, Type (js ''hello'')] initial_page)))"
    by simp
  from u one_question_in_flight
         [of "[Type (js ''hi''), Submit, Settle (HttpResponse True (Some Null))]" NetworkError]
  have b: "step Submit (run [Type (js ''hi''), Submit, Settle (HttpResponse True (Some Null))]
        initial_page)
     = run [Type (js ''hi''), Submit, Settle (HttpResponse True (Some Null))] initial_page"
    by blast
  from r u a b show ?thesis by blast
qed

text \<open>
  Claim C5: the request of a query carries the last ten messages of the conversation as
  it was before the question, in their order; with at most ten messages it carries them
  all, and every older message is left out.
\<close>

theorem history_is_last_ten:
  assumes "sendMessage_submit st = (st', Some req)"
  shows "\<exists>q h. req = PostChat q h
           \<and> h = slice (- 10) (messages st)
           \<and> h = drop (length (messages st) - 10) (messages st)
           \<and> length h = min 10 (length (messages st))
           \<and> take (length (messages st) - 10) (messages st) @ h = messages st"
  using assms
  by (auto simp: sendMessage_submit_def Let_def slice_last_ten split: if_splits)

theorem history_is_last_ten_witness:
  "sendMessage_submit
     \<lparr>messages = map (\<lambda>c. \<lparr>role = User, content = [c], sources = None\<rparr>)
                   [1, 2, 3, 4, 5, 6, 7, 8, 9, 10, 11, 12],
      input = js ''hi'', isLoading = False\<rparr> =
     (\<lparr>messages = map (\<lambda>c. \<lparr>role = User, content = [c], sources = None\<rparr>)
                   [1, 2, 3, 4, 5, 6, 7, 8, 9, 10, 11, 12]
                 @ [\<lparr>role = User, content = js ''hi'', sources = None\<rparr>],
       input = [], isLoading = True\<rparr>,
      Some (PostChat (js ''hi'')
        (map (\<lambda>c. \<lparr>role = User, content = [c], sources = None\<rparr>)
                   [3, 4, 5, 6, 7, 8, 9, 10, 11, 12])))
   \<and> (\<exists>q h. PostChat (js ''hi'')
          (map (\<lambda>c. \<lparr>role = User, content = [c], sources = None\<rparr>)
                   [3, 4, 5, 6, 7, 8, 9, 10, 11, 12]) = PostChat q h
        \<and> length h = 10)"
proof -
  have h: "sendMessage_submit
     \<lparr>messages = map (\<lambda>c. \<lparr>role = User, content = [c], sources = None\<rparr>)
                   [1, 2, 3, 4, 5, 6, 7, 8, 9, 10, 11, 12],
      input = js ''hi'', isLoading = False\<rparr> =
     (\<lparr>messages = map (\<lambda>c. \<lparr>role = User, content = [c], sources = None\<rparr>)
                   [1, 2, 3, 4, 5, 6, 7, 8, 9, 10, 11, 12]
                 @ [\<lparr>role = User, content = js ''hi'', sources = None\<rparr>],
       input = [], isLoading = True\<rparr>,
      Some (PostChat (js ''hi'')
        (map (\<lambda>c. \<lparr>role = User, content = [c], sources = None\<rparr>)
                   [3, 4, 5, 6, 7, 8, 9, 10, 11, 12])))"
    by (simp add: submit_accepted trim_hi js_nonempty slice_last_ten)
  from history_is_last_ten [OF h] h show ?thesis by simp
qed

text \<open>
  Every send but the one answered with the body \<^verbatim>\<open>null\<close> appends the user's message and
  one assistant message.
\<close>

lemma send_appends_two_unless_null:
  assumes "trim (input st) \<noteq> []" and "\<not> isLoading st"
    and "r \<noteq> HttpResponse True (Some Null)"
  shows "\<exists>a. messages (sendMessage r st) =
              messages st @ [\<lparr>role = User, content = trim (input st), sources = None\<rparr>, a]
          \<and> role a = Assistant
          \<and> (case r of
                 HttpResponse True (Some (Obj data)) \<Rightarrow>
                   a = \<lparr>role = Assistant, content = response data, sources = data_sources data\<rparr>
               | _ \<Rightarrow> a = \<lparr>role = Assistant, content = error_text, sources = None\<rparr>)"
proof -
  let ?s1 = "st\<lparr>input := [],
         messages := messages st @ [\<lparr>role = User, content = trim (input st), sources = None\<rparr>],
         isLoading := True\<rparr>"
  from settle_commits [OF assms(3), of ?s1] obtain a where
    s2: "sendMessage_settle r ?s1 = Inr (?s1\<lparr>messages := messages ?s1 @ [a], isLoading := False\<rparr>)"
    and a: "role a = Assistant" "case r of
                 HttpResponse True (Some (Obj data)) \<Rightarrow>
                   a = \<lparr>role = Assistant, content = response data, sources = data_sources data\<rparr>
               | _ \<Rightarrow> a = \<lparr>role = Assistant, content = error_text, sources = None\<rparr>"
    by blast
  have "messages (sendMessage r st) =
          messages st @ [\<lparr>role = User, content = trim (input st), sources = None\<rparr>, a]"
    using assms(1,2) s2 by (simp add: sendMessage_def trace_accepted)
  with a show ?thesis by blast
qed

text \<open>
  Claim C9: every completed send appends the user's trimmed input and one assistant
  message. The code misses a case. For the input \<open>hi\<close> and an OK response whose body is
  \<^verbatim>\<open>null\<close>, the \<^verbatim>\<open>try\<close> block ends normally, the updater it has queued throws when React
  runs it, outside the \<^verbatim>\<open>try\<close> statement, and nothing is committed: the list holds the
  user's message only, without an answer or the error text, and the page keeps loading.
  Every other failure (a rejected fetch, a status that is not OK, a body that is no
  JSON) reaches the \<^verbatim>\<open>catch\<close> block and appends the error text.
\<close>

theorem null_body_appends_no_assistant_message:
  "sendMessage_submit (initial_state\<lparr>input := js ''hi''\<rparr>) =
     (\<lparr>messages = [\<lparr>role = User, content = js ''hi'', sources = None\<rparr>],
       input = [], isLoading = True\<rparr>,
      Some (PostChat (js ''hi'') []))
   \<and> sendMessage_settle (HttpResponse True (Some Null))
        \<lparr>messages = [\<lparr>role = User, content = js ''hi'', sources = None\<rparr>],
         input = [], isLoading = True\<rparr> = Inl TypeError
   \<and> sendMessage (HttpResponse True (Some Null)) (initial_state\<lparr>input := js ''hi''\<rparr>) =
        \<lparr>messages = [\<lparr>role = User, content = js ''hi'', sources = None\<rparr>],
         input = [], isLoading = True\<rparr>"
  by (simp add: sendMessage_def trace_accepted submit_accepted settle_null initial_state_def
      trim_hi js_nonempty slice_def)

text \<open>
  Claim C6: a message with one or more sources renders one citation per source, in order,
  and the text of a citation is the sender, the date and the conversation of the source,
  separated by bullets; a message with no sources (the field absent or empty) renders no
  citation block.
\<close>

theorem citations_show_sender_date_conversation:
  "(sources m = None \<or> sources m = Some [] \<longrightarrow> render_sources m = [])
   \<and> (\<forall>srcs. sources m = Some srcs \<and> srcs \<noteq> [] \<longrightarrow>
         (\<exists>header. render_sources m =
            [Element ''div'' ''mt-3 pt-3 border-t border-gray-200''
               [header, Element ''div'' ''space-y-1'' (map render_source srcs)]]))
   \<and> text_content (render_source s) = sender s @ bullet @ date s @ bullet @ conversation s"
  by (auto simp: render_sources_def render_source_def)

theorem citations_show_sender_date_conversation_witness:
  "render_sources \<lparr>role = Assistant, content = js ''ok'', sources = Some []\<rparr> = []
   \<and> (\<exists>header. render_sources \<lparr>role = Assistant, content = js ''ok'',
          sources = Some [\<lparr>sender = js ''Sarah'', date = js ''2024-01-05'',
                           conversation = js ''Family''\<rparr>]\<rparr> =
         [Element ''div'' ''mt-3 pt-3 border-t border-gray-200''
            [header, Element ''div'' ''space-y-1''
               [render_source \<lparr>sender = js ''Sarah'', date = js ''2024-01-05'',
                               conversation = js ''Family''\<rparr>]]])
   \<and> text_content (render_source \<lparr>sender = js ''Sarah'', date = js ''2024-01-05'',
                               conversation = js ''Family''\<rparr>) =
       js ''Sarah'' @ bullet @ js ''2024-01-05'' @ bullet @ js ''Family''"
  using citations_show_sender_date_conversation
     [of "\<lparr>role = Assistant, content = js ''ok'', sources = Some []\<rparr>"
         "\<lparr>sender = js ''Sarah'', date = js ''2024-01-05'', conversation = js ''Family''\<rparr>"]
    citations_show_sender_date_conversation
     [of "\<lparr>role = Assistant, content = js ''ok'',
          sources = Some [\<lparr>sender = js ''Sarah'', date = js ''2024-01-05'',
                           conversation = js ''Family''\<rparr>]\<rparr>"
         "\<lparr>sender = js ''Sarah'', date = js ''2024-01-05'', conversation = js ''Family''\<rparr>"]
  by simp

section \<open>Claims about the search page\<close>

lemma search_failed_as_empty:
  "failed r \<Longrightarrow> fst (search r st) = fst (search (HttpResponse True (Some (Obj (Some [])))) st)"
  by (cases r)
     (simp_all add: search_def search_submit_def search_settle_def search_try_def
        search_catch_def)

lemma conversations_failure_is_error_view:
  "failed r \<Longrightarrow>
   render_conversations (fetchConversations_settle r st) =
     ErrorView (js ''Failed to load conversations. Make sure the FastAPI server is running.'')"
  by (cases r)
     (simp_all add: fetchConversations_settle_def render_conversations_def js_nonempty)

text \<open>
  Claim C2: a failed call and a search with zero candidates must not look the same to the
  user. On the search page they do. For the query \<open>dinner\<close>, a response with a status
  that is not OK and a response whose array of results is empty leave the page in the same
  state, which renders the block "No Results Found"; the failure is written to the
  console only. The conversations page keeps the failure in a state cell of its own and
  renders an error block, and the chat page appends its error text.
\<close>

theorem search_failure_rendered_as_empty_result:
  "search (HttpResponse False None)
      \<lparr>query = js ''dinner'', results = [], search_isLoading = False, hasSearched = False\<rparr>
     = (\<lparr>query = js ''dinner'', results = [], search_isLoading = False, hasSearched = True\<rparr>,
        [Error (js ''Search failed'')])
   \<and> search (HttpResponse True (Some (Obj (Some []))))
      \<lparr>query = js ''dinner'', results = [], search_isLoading = False, hasSearched = False\<rparr>
     = (\<lparr>query = js ''dinner'', results = [], search_isLoading = False, hasSearched = True\<rparr>,
        [])
   \<and> render_results
        \<lparr>query = js ''dinner'', results = [], search_isLoading = False, hasSearched = True\<rparr>
     = NoResultsFound"
  by (simp add: search_def search_submit_def search_settle_def search_try_def search_catch_def
      render_results_def trim_dinner well_formed_dinner js_nonempty)

text \<open>
  A query that is not well-formed UTF-16 makes the encoding throw before \<^verbatim>\<open>fetch\<close> is
  called: no request is issued, and the page ends as after a failed call.
\<close>

lemma lone_surrogate_issues_no_request:
  "search_submit
     \<lparr>query = [0xD800], results = ([] :: unit list), search_isLoading = False,
      hasSearched = False\<rparr> =
   (\<lparr>query = [0xD800], results = [], search_isLoading = True, hasSearched = True\<rparr>, None)
   \<and> search r
     \<lparr>query = [0xD800], results = ([] :: unit list), search_isLoading = False,
      hasSearched = False\<rparr> =
   (\<lparr>query = [0xD800], results = [], search_isLoading = False, hasSearched = True\<rparr>,
    [URIError])"
  by (simp add: search_def search_submit_def search_catch_def trim_def is_white_space_def
      is_high_surrogate_def is_low_surrogate_def)

subsection \<open>The pattern built by the highlighting\<close>

lemma metachars_are_syntax_characters: "set metachars = set syntax_characters"
  by (simp add: metachars_def syntax_characters_def) blast

lemma special_in_syntax_characters:
  "backslash \<in> set syntax_characters" "lparen \<in> set syntax_characters"
  "rparen \<in> set syntax_characters"
  by (simp_all add: syntax_characters_def backslash_def lparen_def rparen_def)

lemma quantifiers_in_syntax_characters: "set quantifiers \<subseteq> set syntax_characters"
  by (simp add: quantifiers_def syntax_characters_def)

lemma parse_escaped:
  "parse_pattern (escape_metachars q @ rest) cur stack =
   parse_pattern rest (rev (map Chr q) @ cur) stack"
proof (induction q arbitrary: cur)
  case Nil
  then show ?case by (simp add: escape_metachars_def)
next
  case (Cons c q)
  have unfold: "escape_metachars (c # q) =
      (if c \<in> set metachars then [backslash, c] else [c]) @ escape_metachars q"
    by (simp add: escape_metachars_def)
  show ?case
  proof (cases "c \<in> set metachars")
    case True
    then have "c \<in> set syntax_characters"
      by (simp add: metachars_are_syntax_characters)
    then show ?thesis using True Cons.IH [of "Chr c # cur"] by (simp add: unfold)
  next
    case False
    then have plain: "c \<notin> set syntax_characters"
      by (simp add: metachars_are_syntax_characters)
    with special_in_syntax_characters quantifiers_in_syntax_characters
    have "c \<noteq> backslash" "c \<noteq> lparen" "c \<noteq> rparen" "c \<notin> set quantifiers"
      by auto
    then show ?thesis using False plain Cons.IH [of "Chr c # cur"] by (simp add: unfold)
  qed
qed

lemma parse_escaped_group:
  "parse_pattern (lparen # escape_metachars q @ [rparen]) [] [] = Inr [Group (map Chr q)]"
proof -
  have "lparen \<noteq> backslash" by (simp add: lparen_def backslash_def)
  moreover have "rparen \<noteq> backslash" "rparen \<noteq> lparen"
    by (simp_all add: lparen_def rparen_def backslash_def)
  ultimately show ?thesis
    by (simp add: parse_escaped)
qed

lemma literal_of_Chr: "concat (map (literal_of \<circ> Chr) q) = q"
  by (induction q) simp_all

lemma RegExp_new_escaped:
  "RegExp_new limit (lparen # escape_metachars q @ [rparen]) =
     (if limit < length q then Inl RegExpTooLarge else Inr [Group (map Chr q)])"
  by (simp add: RegExp_new_def parse_escaped_group literal_of_Chr del: parse_pattern.simps)

lemma mark_replacement_group:
  \<open>mark_replacement [Group (map Chr q)] =
     (\<lambda>matched. js ''<mark className="bg-yellow-200">'' @ take (length q) matched @ js ''</mark>'')\<close>
  by (rule ext) (simp add: mark_replacement_def literal_of_Chr)

lemma trim_replicate:
  "\<not> is_white_space c \<Longrightarrow> trim (replicate n c) = replicate n c"
  by (simp add: trim_def)

text \<open>Without the escaping, a query can make the constructor throw.\<close>

lemma unescaped_quantifier_throws:
  "parse_pattern [lparen, 0x2A, rparen] [] [] = Inl SyntaxError"
  by (simp add: lparen_def rparen_def backslash_def quantifiers_def)

lemma unescaped_group_throws: "parse_pattern (js ''(a()'') [] [] = Inl SyntaxError"
  by (simp add: js_def lparen_def rparen_def backslash_def syntax_characters_def
      quantifiers_def)

text \<open>
  Claim C10, as stated: \<^verbatim>\<open>highlightQuery\<close> never throws, for any input. It does not hold.
  In V8, whose bound on the literal text of an expression is 32767 code units, the query
  of 32768 letters \<open>a\<close> is refused with "Regular expression too large".
\<close>

theorem long_query_throws:
  "highlightQuery 32767 (\<lambda>c. c) (js ''a'') (replicate 32768 0x61) = Inl RegExpTooLarge"
proof -
  have "trim (replicate 32768 (0x61 :: code_unit)) = replicate 32768 0x61"
    by (rule trim_replicate) (simp add: is_white_space_def)
  then show ?thesis
    by (simp add: highlightQuery_def RegExp_new_escaped)
qed

text \<open>
  Claim C10, amended: \<^verbatim>\<open>highlightQuery\<close> escapes every SyntaxCharacter of the query before it
  constructs the expression, so that for every query the pattern in the parentheses
  parses, without a syntax error, as one capture group that holds the code units of the
  query as literal characters. When the query is empty or consists of white space only,
  the result is the text, unchanged. Otherwise, when the query is not longer than the
  bound of the engine, the result is the text in which every occurrence of the literal
  query, compared without case, is wrapped in the \<^verbatim>\<open>mark\<close> element; a longer query
  throws.
\<close>

theorem highlightQuery_marks_literal_query:
  \<open>(trim q = [] \<longrightarrow> highlightQuery limit canon text q = Inr text)
   \<and> (trim q \<noteq> [] \<and> length q \<le> limit \<longrightarrow>
        highlightQuery limit canon text q =
          Inr (replace_global canon q
                 (\<lambda>matched. js ''<mark className="bg-yellow-200">'' @ take (length q) matched
                               @ js ''</mark>'')
                 text))
   \<and> (trim q \<noteq> [] \<and> limit < length q \<longrightarrow>
        highlightQuery limit canon text q = Inl RegExpTooLarge)
   \<and> parse_pattern (lparen # escape_metachars q @ [rparen]) [] [] = Inr [Group (map Chr q)]\<close>
  by (simp add: highlightQuery_def RegExp_new_escaped literal_of_Chr mark_replacement_group
      parse_escaped_group del: parse_pattern.simps)

theorem highlightQuery_marks_literal_query_witness:
  \<open>trim (js ''  '') = []
   \<and> highlightQuery 32767 (\<lambda>c. c) (js ''a b'') (js ''  '') = Inr (js ''a b'')
   \<and> trim (js ''+'') \<noteq> [] \<and> length (js ''+'') \<le> 32767
   \<and> highlightQuery 32767 (\<lambda>c. c) (js ''1+1=2'') (js ''+'') =
       Inr (js ''1<mark className="bg-yellow-200">+</mark>1=2'')
   \<and> 2 < length (js ''a(+'')
   \<and> highlightQuery 2 (\<lambda>c. c) (js ''1+1=2'') (js ''a(+'') = Inl RegExpTooLarge
   \<and> parse_pattern (lparen # escape_metachars (js ''a(+'') @ [rparen]) [] []
       = Inr [Group [Chr 0x61, Chr 0x28, Chr 0x2B]]\<close>
proof -
  have plus: "trim (js ''+'') \<noteq> []" and long: "trim (js ''a(+'') \<noteq> []"
    by (simp_all add: trim_def js_def is_white_space_def)
  have marked: \<open>replace_global (\<lambda>c. c) (js ''+'')
            (\<lambda>matched. js ''<mark className="bg-yellow-200">'' @ take (length (js ''+'')) matched
                               @ js ''</mark>'')
            (js ''1+1=2'') = js ''1<mark className="bg-yellow-200">+</mark>1=2''\<close>
    by code_simp
  from highlightQuery_marks_literal_query [of "js ''  ''" 32767 "\<lambda>c. c" "js ''a b''"]
  have a: "highlightQuery 32767 (\<lambda>c. c) (js ''a b'') (js ''  '') = Inr (js ''a b'')"
    by (simp add: trim_blank)
  from highlightQuery_marks_literal_query [of "js ''+''" 32767 "\<lambda>c. c" "js ''1+1=2''"] plus marked
  have b: \<open>highlightQuery 32767 (\<lambda>c. c) (js ''1+1=2'') (js ''+'') =
       Inr (js ''1<mark className="bg-yellow-200">+</mark>1=2'')\<close>
    by (simp add: js_def)
  from highlightQuery_marks_literal_query [of "js ''a(+''" 2 "\<lambda>c. c" "js ''1+1=2''"] long
  have c: "highlightQuery 2 (\<lambda>c. c) (js ''1+1=2'') (js ''a(+'') = Inl RegExpTooLarge"
    and d: "parse_pattern (lparen # escape_metachars (js ''a(+'') @ [rparen]) [] []
       = Inr [Group [Chr 0x61, Chr 0x28, Chr 0x2B]]"
    by (simp_all add: js_def del: parse_pattern.simps)
  from a b c d plus show ?thesis
    by (simp add: trim_blank) (simp add: js_def)
qed

section \<open>Claims about the backend calls\<close>

text \<open>
  Claim C7, as stated: every backend call of the client targets the query call or the
  indexing call of the core. It does not hold: the request of the conversations page goes
  to \<^verbatim>\<open>GET /conversations\<close>, which is neither.
\<close>

theorem conversations_call_is_no_public_call:
  "endpoint fetchConversations_request = (GET, ''/conversations'')
   \<and> spec_public_call (endpoint fetchConversations_request) = None"
  by (simp add: fetchConversations_request_def spec_public_call_def)

text \<open>
  Claim C7, amended: the client issues three kinds of backend calls and no other:
  \<^verbatim>\<open>POST /chat\<close> from the chat page, which is the query call of the core,
  \<^verbatim>\<open>GET /search\<close> from the search page and \<^verbatim>\<open>GET /conversations\<close> from the conversations
  page, which are not public calls of the core; no call of the client starts an indexing
  run.
\<close>

theorem client_calls_three_endpoints:
  "(sendMessage_submit st = (st', Some req) \<longrightarrow>
      endpoint req = (POST, ''/chat'') \<and> spec_public_call (endpoint req) = Some Query)
   \<and> (search_submit sst = (sst', Some sreq) \<longrightarrow>
      endpoint sreq = (GET, ''/search'') \<and> spec_public_call (endpoint sreq) = None)
   \<and> endpoint fetchConversations_request = (GET, ''/conversations'')
   \<and> spec_public_call (endpoint fetchConversations_request) = None
   \<and> (\<forall>any. spec_public_call (endpoint any) \<noteq> Some RunIndex)"
proof -
  have "spec_public_call (endpoint any) \<noteq> Some RunIndex" for any
    by (cases any) (simp_all add: spec_public_call_def)
  then show ?thesis
    by (auto simp: sendMessage_submit_def search_submit_def fetchConversations_request_def
        spec_public_call_def Let_def split: if_splits)
qed

theorem client_calls_three_endpoints_witness:
  "sendMessage_submit (initial_state\<lparr>input := js ''hi''\<rparr>) =
     (\<lparr>messages = [\<lparr>role = User, content = js ''hi'', sources = None\<rparr>],
       input = [], isLoading = True\<rparr>,
      Some (PostChat (js ''hi'') []))
   \<and> spec_public_call (endpoint (PostChat (js ''hi'') [])) = Some Query
   \<and> search_submit
        \<lparr>query = js ''dinner'', results = ([] :: unit list), search_isLoading = False,
         hasSearched = False\<rparr> =
       (\<lparr>query = js ''dinner'', results = [], search_isLoading = True, hasSearched = True\<rparr>,
        Some (GetSearch (js ''dinner'') 20))
   \<and> spec_public_call (endpoint (GetSearch (js ''dinner'') 20)) = None"
proof -
  have a: "sendMessage_submit (initial_state\<lparr>input := js ''hi''\<rparr>) =
     (\<lparr>messages = [\<lparr>role = User, content = js ''hi'', sources = None\<rparr>],
       input = [], isLoading = True\<rparr>,
      Some (PostChat (js ''hi'') []))"
    by (simp add: submit_accepted trim_hi js_nonempty initial_state_def slice_def)
  have b: "search_submit
        \<lparr>query = js ''dinner'', results = ([] :: unit list), search_isLoading = False,
         hasSearched = False\<rparr> =
       (\<lparr>query = js ''dinner'', results = [], search_isLoading = True, hasSearched = True\<rparr>,
        Some (GetSearch (js ''dinner'') 20))"
    by (simp add: search_submit_def trim_dinner well_formed_dinner js_nonempty)
  from client_calls_three_endpoints
         [of "initial_state\<lparr>input := js ''hi''\<rparr>"
             "\<lparr>messages = [\<lparr>role = User, content = js ''hi'', sources = None\<rparr>],
               input = [], isLoading = True\<rparr>"
             "PostChat (js ''hi'') []"
             "\<lparr>query = js ''dinner'', results = ([] :: unit list), search_isLoading = False,
               hasSearched = False\<rparr>"
             "\<lparr>query = js ''dinner'', results = [], search_isLoading = True,
               hasSearched = True\<rparr>"
             "GetSearch (js ''dinner'') 20"]
    a b
  show ?thesis by simp
qed

section \<open>Claims about the normalisation of timestamps\<close>

lemma apple_to_unix_cases:
  "apple_to_unix raw =
     (if 0 \<le> raw then raw div 1000000000 else - ((- raw) div 1000000000)) + 978307200"
  by (simp add: apple_to_unix_def signed_divide_int_def sgn_if)

lemma apple_to_unix_whole_seconds: "apple_to_unix (s * 1000000000) = s + 978307200"
proof (cases "0 \<le> s")
  case True
  then show ?thesis by (simp add: apple_to_unix_cases)
next
  case False
  then have "\<not> 0 \<le> s * 1000000000" by simp
  moreover have "(- (s * 1000000000)) div 1000000000 = - s"
  proof -
    have "- (s * 1000000000) = (- s) * 1000000000" by simp
    then show ?thesis by (simp only: nonzero_mult_div_cancel_right)
  qed
  ultimately show ?thesis by (simp only: apple_to_unix_cases if_False)
qed

lemma apple_to_unix_truncates:
  "\<bar>raw - (apple_to_unix raw - 978307200) * 1000000000\<bar> < 1000000000
   \<and> \<bar>(apple_to_unix raw - 978307200) * 1000000000\<bar> \<le> \<bar>raw\<bar>"
proof (cases "0 \<le> raw")
  case True
  have "raw - raw div 1000000000 * 1000000000 = raw mod 1000000000"
    by (simp add: minus_div_mult_eq_mod)
  moreover have "0 \<le> raw mod 1000000000" "raw mod 1000000000 < 1000000000"
    by simp_all
  moreover have "0 \<le> raw div 1000000000" using True by (simp add: pos_imp_zdiv_nonneg_iff)
  ultimately show ?thesis using True by (simp add: apple_to_unix_cases)
next
  case False
  define m where "m = - raw"
  have "m - m div 1000000000 * 1000000000 = m mod 1000000000"
    by (simp add: minus_div_mult_eq_mod)
  moreover have "0 \<le> m mod 1000000000" "m mod 1000000000 < 1000000000"
    by simp_all
  moreover have "0 \<le> m div 1000000000" using False by (simp add: m_def pos_imp_zdiv_nonneg_iff)
  moreover have "apple_to_unix raw - 978307200 = - (m div 1000000000)"
    using False by (simp add: apple_to_unix_cases m_def)
  moreover have "raw = - m" by (simp add: m_def)
  ultimately show ?thesis by (simp only:) arith
qed

lemma apple_to_unix_mono:
  assumes "a \<le> b"
  shows "apple_to_unix a \<le> apple_to_unix b"
proof -
  consider "0 \<le> a" | "a < 0" "0 \<le> b" | "b < 0" by linarith
  then show ?thesis
  proof cases
    case 1
    then have "0 \<le> b" using assms by simp
    moreover have "a div 1000000000 \<le> b div 1000000000"
      using assms by (rule zdiv_mono1) simp
    ultimately show ?thesis using 1 by (simp add: apple_to_unix_cases)
  next
    case 2
    have "0 \<le> (- a) div 1000000000" using 2 by (simp add: pos_imp_zdiv_nonneg_iff)
    moreover have "0 \<le> b div 1000000000" using 2 by (simp add: pos_imp_zdiv_nonneg_iff)
    ultimately show ?thesis using 2 by (simp add: apple_to_unix_cases)
  next
    case 3
    then have "a < 0" using assms by simp
    moreover have "(- b) div 1000000000 \<le> (- a) div 1000000000"
      using assms by (intro zdiv_mono1) simp_all
    ultimately show ?thesis using 3 by (simp add: apple_to_unix_cases)
  qed
qed

text \<open>
  Claim C8: the normalisation is integer arithmetic with the fixed offset 978307200, the
  number of seconds from 1970-01-01 to 2001-01-01 (31 years with 8 leap days). The raw
  value 0 is converted to exactly that instant; a raw value of a whole number of seconds
  is converted to that number plus the offset; in general the nanoseconds below one
  second are cut off towards zero and nothing else is lost. The same conversion is
  applied to each of the three time fields of a record, so that a record of zeros is
  normalised to the origin in every field and the order of the fields in time is kept.
\<close>

theorem apple_epoch_origin_exact:
  "apple_to_unix 0 = 978307200
   \<and> (978307200 :: int) = (31 * 365 + 8) * 86400
   \<and> apple_to_unix (s * 1000000000) = s + 978307200
   \<and> \<bar>raw - (apple_to_unix raw - 978307200) * 1000000000\<bar> < 1000000000
   \<and> \<bar>(apple_to_unix raw - 978307200) * 1000000000\<bar> \<le> \<bar>raw\<bar>
   \<and> unix_date (normalize_times t) = apple_to_unix (raw_date t)
   \<and> unix_date_read (normalize_times t) = apple_to_unix (raw_date_read t)
   \<and> unix_date_delivered (normalize_times t) = apple_to_unix (raw_date_delivered t)
   \<and> normalize_times \<lparr>raw_date = 0, raw_date_read = 0, raw_date_delivered = 0\<rparr> =
       \<lparr>unix_date = 978307200, unix_date_read = 978307200, unix_date_delivered = 978307200\<rparr>
   \<and> (raw_date t \<le> raw_date_delivered t \<longrightarrow>
        unix_date (normalize_times t) \<le> unix_date_delivered (normalize_times t))
   \<and> (raw_date_delivered t \<le> raw_date_read t \<longrightarrow>
        unix_date_delivered (normalize_times t) \<le> unix_date_read (normalize_times t))"
proof -
  have zero: "apple_to_unix 0 = 978307200"
    by (simp add: apple_to_unix_def)
  have days: "(978307200 :: int) = (31 * 365 + 8) * 86400"
    by simp
  have fields: "unix_date (normalize_times t) = apple_to_unix (raw_date t)"
    "unix_date_read (normalize_times t) = apple_to_unix (raw_date_read t)"
    "unix_date_delivered (normalize_times t) = apple_to_unix (raw_date_delivered t)"
    by (simp_all add: normalize_times_def)
  have origin: "normalize_times \<lparr>raw_date = 0, raw_date_read = 0, raw_date_delivered = 0\<rparr> =
       \<lparr>unix_date = 978307200, unix_date_read = 978307200, unix_date_delivered = 978307200\<rparr>"
    by (simp add: normalize_times_def zero)
  have order: "unix_date (normalize_times t) \<le> unix_date_delivered (normalize_times t)"
    if "raw_date t \<le> raw_date_delivered t"
    using that by (simp only: fields apple_to_unix_mono)
  have order': "unix_date_delivered (normalize_times t) \<le> unix_date_read (normalize_times t)"
    if "raw_date_delivered t \<le> raw_date_read t"
    using that by (simp only: fields apple_to_unix_mono)
  from zero days fields origin order order'
    apple_to_unix_whole_seconds [of s] apple_to_unix_truncates [of raw]
  show ?thesis by blast
qed

theorem apple_epoch_origin_exact_witness:
  "raw_date \<lparr>raw_date = - 1500000000, raw_date_read = 2999999999,
             raw_date_delivered = 1000000000\<rparr>
     \<le> raw_date_delivered \<lparr>raw_date = - 1500000000, raw_date_read = 2999999999,
             raw_date_delivered = 1000000000\<rparr>
   \<and> normalize_times \<lparr>raw_date = - 1500000000, raw_date_read = 2999999999,
             raw_date_delivered = 1000000000\<rparr> =
       \<lparr>unix_date = 978307199, unix_date_read = 978307202, unix_date_delivered = 978307201\<rparr>
   \<and> unix_date (normalize_times \<lparr>raw_date = - 1500000000, raw_date_read = 2999999999,
             raw_date_delivered = 1000000000\<rparr>)
     \<le> unix_date_delivered (normalize_times \<lparr>raw_date = - 1500000000,
             raw_date_read = 2999999999, raw_date_delivered = 1000000000\<rparr>)
   \<and> raw_date_delivered \<lparr>raw_date = - 1500000000, raw_date_read = 2999999999,
             raw_date_delivered = 1000000000\<rparr>
     \<le> raw_date_read \<lparr>raw_date = - 1500000000, raw_date_read = 2999999999,
             raw_date_delivered = 1000000000\<rparr>
   \<and> unix_date_delivered (normalize_times \<lparr>raw_date = - 1500000000,
             raw_date_read = 2999999999, raw_date_delivered = 1000000000\<rparr>)
     \<le> unix_date_read (normalize_times \<lparr>raw_date = - 1500000000,
             raw_date_read = 2999999999, raw_date_delivered = 1000000000\<rparr>)"
  using apple_epoch_origin_exact
    [of 0 0 "\<lparr>raw_date = - 1500000000, raw_date_read = 2999999999,
             raw_date_delivered = 1000000000\<rparr>"]
  by (simp add: normalize_times_def apple_to_unix_cases)

end
